theory Spec2Isabelle
  imports Main
begin

section \<open>Exceptions and programs over a store\<close>

text \<open>
  The adapter \<^verbatim>\<open>svcs/django.py\<close> reads and writes attributes of framework objects and
  calls methods of the core's \<^verbatim>\<open>Registry\<close> and \<^verbatim>\<open>Container\<close>. A program is a
  function from the object store to an outcome (an exception or a value) and the store it
  leaves behind; an exception keeps the writes made before it was raised.
\<close>

datatype exc = AttributeError | ValueError | TypeError | LookupError | CoreError string

type_synonym ('a, 's) prog = "'s \<Rightarrow> (exc + 'a) \<times> 's"

definition ret :: "'a \<Rightarrow> ('a, 's) prog" where
  "ret a s = (Inr a, s)"

definition throw :: "exc \<Rightarrow> ('a, 's) prog" where
  "throw e s = (Inl e, s)"

definition then_do :: "('a, 's) prog \<Rightarrow> ('a \<Rightarrow> ('b, 's) prog) \<Rightarrow> ('b, 's) prog" where
  "then_do m f s = (case m s of (Inl e, s') \<Rightarrow> (Inl e, s') | (Inr a, s') \<Rightarrow> f a s')"

section \<open>The objects\<close>

text \<open>
  Objects live in stores, one per class; a reference is an index into the store of its
  class, so two references denote the same object exactly when they are equal, and a newly
  constructed object gets the index after the last one. A reference past the end of its store
  denotes no object (no run of the adapter produces one); reading an attribute through it
  raises \<^verbatim>\<open>AttributeError\<close>.
\<close>

type_synonym ref = nat

definition deref :: "'a list \<Rightarrow> ref \<Rightarrow> 'a option" where
  "deref xs a = (if a < length xs then Some (xs ! a) else None)"

text \<open>Classes used as service keys, and callables (factories, pings, close hooks), by name.\<close>

type_synonym svc_type = string
type_synonym callable = string

text \<open>
  The module \<^verbatim>\<open>svcs._core\<close> is a module of its own, which the adapter imports.
  Everything the adapter uses of it is a parameter: the attribute name
  \<^verbatim>\<open>_KEY_CONTAINER\<close>, the state of a new \<^verbatim>\<open>Registry()\<close>, the truth value of a
  registry (what \<^verbatim>\<open>not registry\<close> tests), its two registration methods, the state of a
  new \<^verbatim>\<open>Container(registry)\<close> apart from its \<^verbatim>\<open>registry\<close> attribute, and the
  container's \<^verbatim>\<open>close\<close> and \<^verbatim>\<open>get\<close>. A method works on the state of its own
  object (\<^verbatim>\<open>get\<close> also reads the registry of its container) and may raise.
\<close>

record ('r, 'c, 'v, 'o) core =
  KEY_CONTAINER :: string
  Registry_new :: 'r
  Registry_bool :: "'r \<Rightarrow> bool"
  Registry_register_factory ::
    "svc_type \<Rightarrow> callable \<Rightarrow> bool \<Rightarrow> callable option \<Rightarrow> callable option \<Rightarrow> (unit, 'r) prog"
  Registry_register_value ::
    "svc_type \<Rightarrow> 'v \<Rightarrow> bool \<Rightarrow> callable option \<Rightarrow> callable option \<Rightarrow> (unit, 'r) prog"
  Container_new :: 'c
  Container_close :: "(unit, 'c) prog"
  Container_get :: "svc_type list \<Rightarrow> 'r \<Rightarrow> ('o, 'c) prog"

text \<open>A \<^verbatim>\<open>Container\<close>: its \<^verbatim>\<open>registry\<close> attribute and the rest of its state.\<close>

record 'c container =
  con_registry :: ref
  con_state :: 'c

text \<open>
  An app config: whether it is an instance of \<^verbatim>\<open>DjangoSvcsAppConfigMixin\<close>, and its
  \<^verbatim>\<open>registry\<close> attribute (\<^verbatim>\<open>Registry | None\<close>, \<^verbatim>\<open>None\<close> in the class).
\<close>

record app_config =
  is_svcs_mixin :: bool
  cfg_registry :: "ref option"

text \<open>
  The store: registries, containers, requests (an \<^verbatim>\<open>HttpRequest\<close> is its attribute
  dictionary; the attributes the adapter touches hold containers), app configs, and
  Django's table of installed apps by label.
\<close>

record ('r, 'c) world =
  registries :: "'r list"
  containers :: "'c container list"
  requests :: "(string \<rightharpoonup> ref) list"
  configs :: "app_config list"
  installed_apps :: "string \<rightharpoonup> ref"

subsection \<open>Attribute access\<close>

definition getattr_request :: "ref \<Rightarrow> string \<Rightarrow> (ref, ('r, 'c) world) prog" where
  "getattr_request request name w =
     (case deref (requests w) request of
        None \<Rightarrow> (Inl AttributeError, w)
      | Some attrs \<Rightarrow>
          (case attrs name of None \<Rightarrow> (Inl AttributeError, w) | Some c \<Rightarrow> (Inr c, w)))"

definition setattr_request :: "ref \<Rightarrow> string \<Rightarrow> ref \<Rightarrow> (unit, ('r, 'c) world) prog" where
  "setattr_request request name c w =
     (case deref (requests w) request of
        None \<Rightarrow> (Inl AttributeError, w)
      | Some attrs \<Rightarrow> (Inr (), w\<lparr>requests := (requests w)[request := attrs(name \<mapsto> c)]\<rparr>))"

definition getattr_registry :: "ref \<Rightarrow> (ref option, ('r, 'c) world) prog" where
  "getattr_registry app w =
     (case deref (configs w) app of
        None \<Rightarrow> (Inl AttributeError, w)
      | Some cfg \<Rightarrow> (Inr (cfg_registry cfg), w))"

definition setattr_registry :: "ref \<Rightarrow> ref option \<Rightarrow> (unit, ('r, 'c) world) prog" where
  "setattr_registry app reg w =
     (case deref (configs w) app of
        None \<Rightarrow> (Inl AttributeError, w)
      | Some cfg \<Rightarrow> (Inr (), w\<lparr>configs := (configs w)[app := cfg\<lparr>cfg_registry := reg\<rparr>]\<rparr>))"

definition getattr_con_registry :: "ref \<Rightarrow> (ref, ('r, 'c) world) prog" where
  "getattr_con_registry c w =
     (case deref (containers w) c of
        None \<Rightarrow> (Inl AttributeError, w)
      | Some con \<Rightarrow> (Inr (con_registry con), w))"

text \<open>
  Truth values. A registry has the truth value its class gives it; \<^verbatim>\<open>None\<close> is false,
  so \<^verbatim>\<open>not x\<close> for \<^verbatim>\<open>x: Registry | None\<close> holds for \<^verbatim>\<open>None\<close> and for a
  registry that is false.
\<close>

definition py_bool :: "('r, 'c, 'v, 'o) core \<Rightarrow> ref \<Rightarrow> (bool, ('r, 'c) world) prog" where
  "py_bool core a w =
     (case deref (registries w) a of
        None \<Rightarrow> (Inr True, w)
      | Some r \<Rightarrow> (Inr (Registry_bool core r), w))"

definition py_not :: "('r, 'c, 'v, 'o) core \<Rightarrow> ref option \<Rightarrow> (bool, ('r, 'c) world) prog" where
  "py_not core x =
     (case x of
        None \<Rightarrow> ret True
      | Some a \<Rightarrow> then_do (py_bool core a) (\<lambda>t. ret (\<not> t)))"

subsection \<open>Constructors and methods of the core's classes\<close>

definition Registry_init :: "('r, 'c, 'v, 'o) core \<Rightarrow> (ref, ('r, 'c) world) prog" where
  "Registry_init core w =
     (Inr (length (registries w)), w\<lparr>registries := registries w @ [Registry_new core]\<rparr>)"

definition Container_init :: "('r, 'c, 'v, 'o) core \<Rightarrow> ref \<Rightarrow> (ref, ('r, 'c) world) prog" where
  "Container_init core reg w =
     (Inr (length (containers w)),
      w\<lparr>containers := containers w @ [\<lparr>con_registry = reg, con_state = Container_new core\<rparr>]\<rparr>)"

definition on_registry :: "ref \<Rightarrow> ('a, 'r) prog \<Rightarrow> ('a, ('r, 'c) world) prog" where
  "on_registry a m w =
     (case deref (registries w) a of
        None \<Rightarrow> (Inl AttributeError, w)
      | Some r \<Rightarrow> (case m r of (res, r') \<Rightarrow> (res, w\<lparr>registries := (registries w)[a := r']\<rparr>)))"

definition on_container :: "ref \<Rightarrow> ('a, 'c) prog \<Rightarrow> ('a, ('r, 'c) world) prog" where
  "on_container c m w =
     (case deref (containers w) c of
        None \<Rightarrow> (Inl AttributeError, w)
      | Some con \<Rightarrow>
          (case m (con_state con) of
             (res, s') \<Rightarrow> (res, w\<lparr>containers := (containers w)[c := con\<lparr>con_state := s'\<rparr>]\<rparr>)))"

definition registry_state :: "ref \<Rightarrow> ('r, ('r, 'c) world) prog" where
  "registry_state a w =
     (case deref (registries w) a of None \<Rightarrow> (Inl AttributeError, w) | Some r \<Rightarrow> (Inr r, w))"

text \<open>\<^verbatim>\<open>container.close()\<close> and \<^verbatim>\<open>container.get(*svc_types)\<close>.\<close>

definition Container_close_call :: "('r, 'c, 'v, 'o) core \<Rightarrow> ref \<Rightarrow> (unit, ('r, 'c) world) prog" where
  "Container_close_call core c = on_container c (Container_close core)"

definition Container_get_call ::
  "('r, 'c, 'v, 'o) core \<Rightarrow> ref \<Rightarrow> svc_type list \<Rightarrow> ('o, ('r, 'c) world) prog" where
  "Container_get_call core c svc_types =
     then_do (getattr_con_registry c) (\<lambda>reg.
     then_do (registry_state reg) (\<lambda>r.
       on_container c (Container_get core svc_types r)))"

subsection \<open>Django's app table\<close>

text \<open>
  \<^verbatim>\<open>apps.get_app_config(label)\<close> raises \<^verbatim>\<open>LookupError\<close> when no app is installed under
  the label and returns the app config otherwise. The result is an optional reference so
  that the caller's test \<^verbatim>\<open>if not app\<close> has its branch; an app config is a true value.
\<close>

definition get_app_config :: "string \<Rightarrow> (ref option, ('r, 'c) world) prog" where
  "get_app_config label w =
     (case installed_apps w label of
        None \<Rightarrow> (Inl LookupError, w)
      | Some a \<Rightarrow> (Inr (Some a), w))"

definition isinstance_mixin :: "ref \<Rightarrow> (bool, ('r, 'c) world) prog" where
  "isinstance_mixin app w =
     (case deref (configs w) app of
        None \<Rightarrow> (Inr False, w)
      | Some cfg \<Rightarrow> (Inr (is_svcs_mixin cfg), w))"

section \<open>The adapter\<close>

text \<open>Keyword-only arguments; \<^verbatim>\<open>enter\<close> left out is \<open>None\<close> and takes the default.\<close>

record kwargs =
  enter :: "bool option"
  ping :: "callable option"
  on_registry_close :: "callable option"

definition default :: "'a \<Rightarrow> 'a option \<Rightarrow> 'a" where
  "default d x = (case x of None \<Rightarrow> d | Some v \<Rightarrow> v)"

definition svcs_from :: "('r, 'c, 'v, 'o) core \<Rightarrow> ref \<Rightarrow> (ref, ('r, 'c) world) prog" where
  "svcs_from core request = getattr_request request (KEY_CONTAINER core)"

definition get_registry :: "('r, 'c, 'v, 'o) core \<Rightarrow> ref \<Rightarrow> (ref, ('r, 'c) world) prog" where
  "get_registry core app =
     then_do (getattr_registry app) (\<lambda>reg.
       case reg of
         None \<Rightarrow> throw ValueError
       | Some r \<Rightarrow> then_do (py_bool core r) (\<lambda>t. if \<not> t then throw ValueError else ret r))"

definition register_factory ::
  "('r, 'c, 'v, 'o) core \<Rightarrow> ref \<Rightarrow> svc_type \<Rightarrow> callable \<Rightarrow> kwargs \<Rightarrow> (unit, ('r, 'c) world) prog" where
  "register_factory core config svc_type factory kw =
     then_do (getattr_registry config) (\<lambda>reg.
       case reg of
         None \<Rightarrow> throw AttributeError
       | Some r \<Rightarrow>
           on_registry r
             (Registry_register_factory core svc_type factory
                (default True (enter kw)) (ping kw) (on_registry_close kw)))"

definition register_value ::
  "('r, 'c, 'v, 'o) core \<Rightarrow> ref \<Rightarrow> svc_type \<Rightarrow> 'v \<Rightarrow> kwargs \<Rightarrow> (unit, ('r, 'c) world) prog" where
  "register_value core config svc_type v kw =
     then_do (getattr_registry config) (\<lambda>reg.
       case reg of
         None \<Rightarrow> throw AttributeError
       | Some r \<Rightarrow>
           on_registry r
             (Registry_register_value core svc_type v
                (default False (enter kw)) (ping kw) (on_registry_close kw)))"

definition overwrite_factory ::
  "('r, 'c, 'v, 'o) core \<Rightarrow> ref \<Rightarrow> svc_type \<Rightarrow> callable \<Rightarrow> kwargs \<Rightarrow> (unit, ('r, 'c) world) prog" where
  "overwrite_factory core request svc_type factory kw =
     then_do (svcs_from core request) (\<lambda>container.
     then_do (getattr_con_registry container) (\<lambda>reg.
     then_do (on_registry reg
                (Registry_register_factory core svc_type factory
                   (default True (enter kw)) (ping kw) (on_registry_close kw))) (\<lambda>_.
       Container_close_call core container)))"

text \<open>\<^verbatim>\<open>DjangoSvcsAppConfigMixin.ready\<close>.\<close>

definition ready :: "('r, 'c, 'v, 'o) core \<Rightarrow> ref \<Rightarrow> (unit, ('r, 'c) world) prog" where
  "ready core self =
     then_do (getattr_registry self) (\<lambda>reg.
     then_do (py_not core reg) (\<lambda>unset.
       if unset then then_do (Registry_init core) (\<lambda>r. setattr_registry self (Some r))
       else ret ()))"

text \<open>\<^verbatim>\<open>SvcsMiddleware\<close>: the object keeps the next handler.\<close>

record ('s, 'a) SvcsMiddleware =
  get_response :: "ref \<Rightarrow> ('a, 's) prog"

definition SvcsMiddleware_init :: "(ref \<Rightarrow> ('a, 's) prog) \<Rightarrow> ('s, 'a) SvcsMiddleware" where
  "SvcsMiddleware_init handler = \<lparr>get_response = handler\<rparr>"

definition SvcsMiddleware_get_registry :: "('r, 'c, 'v, 'o) core \<Rightarrow> (ref, ('r, 'c) world) prog" where
  "SvcsMiddleware_get_registry core =
     then_do (get_app_config ''django'') (\<lambda>app.
       case app of
         None \<Rightarrow> throw ValueError
       | Some a \<Rightarrow>
           then_do (isinstance_mixin a) (\<lambda>inst.
             if \<not> inst then throw TypeError else get_registry core a))"

definition SvcsMiddleware_call ::
  "('r, 'c, 'v, 'o) core \<Rightarrow> (('r, 'c) world, 'a) SvcsMiddleware \<Rightarrow> ref \<Rightarrow> ('a, ('r, 'c) world) prog" where
  "SvcsMiddleware_call core self request =
     then_do (SvcsMiddleware_get_registry core) (\<lambda>reg.
     then_do (Container_init core reg) (\<lambda>container.
     then_do (setattr_request request (KEY_CONTAINER core) container) (\<lambda>_.
       get_response self request)))"

definition get :: "('r, 'c, 'v, 'o) core \<Rightarrow> ref \<Rightarrow> svc_type list \<Rightarrow> ('o, ('r, 'c) world) prog" where
  "get core request svc_types =
     then_do (svcs_from core request) (\<lambda>container.
       Container_get_call core container svc_types)"

section \<open>A recording core and a sample run\<close>

text \<open>
  To run the adapter on concrete stores, a stand-in for the core that records what it is
  asked: the state of a registry is the list of registrations it has received, the state of
  a container the list of calls made on it. Its \<^verbatim>\<open>get\<close> answers each service type with
  the factory or value registered last for it and raises when a type has none. The
  attribute name is the one the tests read, \<^verbatim>\<open>request.svcs_container\<close>.
\<close>

datatype reg_call =
    RegisterFactory svc_type callable bool "callable option" "callable option"
  | RegisterValue svc_type string bool "callable option" "callable option"

datatype con_call = Get "svc_type list" | Close

fun provider :: "reg_call \<Rightarrow> svc_type \<times> string" where
  "provider (RegisterFactory t f _ _ _) = (t, f)"
| "provider (RegisterValue t v _ _ _) = (t, v)"

definition recording_get :: "svc_type list \<Rightarrow> reg_call list \<Rightarrow> (string list, con_call list) prog" where
  "recording_get ts r c =
     (case those (map (map_of (rev (map provider r))) ts) of
        None \<Rightarrow> (Inl (CoreError ''ServiceNotFoundError''), c @ [Get ts])
      | Some vs \<Rightarrow> (Inr vs, c @ [Get ts]))"

definition recording_core :: "(reg_call list, con_call list, string, string list) core" where
  "recording_core =
     \<lparr>KEY_CONTAINER = ''svcs_container'',
      Registry_new = [],
      Registry_bool = (\<lambda>r. True),
      Registry_register_factory = (\<lambda>t f e p oc r. (Inr (), r @ [RegisterFactory t f e p oc])),
      Registry_register_value = (\<lambda>t v e p oc r. (Inr (), r @ [RegisterValue t v e p oc])),
      Container_new = [],
      Container_close = (\<lambda>c. (Inr (), c @ [Close])),
      Container_get = recording_get\<rparr>"

text \<open>
  The stores of a sample run: before \<^verbatim>\<open>ready\<close>, with one app config installed under
  the label \<^verbatim>\<open>django\<close> and one request; after \<^verbatim>\<open>ready\<close>; and as the next handler
  sees it when the middleware has stashed the container.
\<close>

definition world0 :: "(reg_call list, con_call list) world" where
  "world0 =
     \<lparr>registries = [], containers = [], requests = [Map.empty],
      configs = [\<lparr>is_svcs_mixin = True, cfg_registry = None\<rparr>],
      installed_apps = [''django'' \<mapsto> 0]\<rparr>"

definition world1 :: "(reg_call list, con_call list) world" where
  "world1 =
     \<lparr>registries = [[]], containers = [], requests = [Map.empty],
      configs = [\<lparr>is_svcs_mixin = True, cfg_registry = Some 0\<rparr>],
      installed_apps = [''django'' \<mapsto> 0]\<rparr>"

definition world2 :: "(reg_call list, con_call list) world" where
  "world2 =
     \<lparr>registries = [[]], containers = [\<lparr>con_registry = 0, con_state = []\<rparr>],
      requests = [[''svcs_container'' \<mapsto> 0]],
      configs = [\<lparr>is_svcs_mixin = True, cfg_registry = Some 0\<rparr>],
      installed_apps = [''django'' \<mapsto> 0]\<rparr>"

text \<open>
  A store where the request's container was built on a registry of its own, not the one
  of the app config.
\<close>

definition world3 :: "(reg_call list, con_call list) world" where
  "world3 =
     \<lparr>registries = [[], []], containers = [\<lparr>con_registry = 1, con_state = []\<rparr>],
      requests = [[''svcs_container'' \<mapsto> 0]],
      configs = [\<lparr>is_svcs_mixin = True, cfg_registry = Some 0\<rparr>],
      installed_apps = [''django'' \<mapsto> 0]\<rparr>"

text \<open>A store like the one after \<^verbatim>\<open>ready\<close>, with two requests waiting.\<close>

definition world4 :: "(reg_call list, con_call list) world" where
  "world4 =
     \<lparr>registries = [[]], containers = [], requests = [Map.empty, Map.empty],
      configs = [\<lparr>is_svcs_mixin = True, cfg_registry = Some 0\<rparr>],
      installed_apps = [''django'' \<mapsto> 0]\<rparr>"

section \<open>Facts about programs and attribute access\<close>

lemma then_do_ret: "then_do (ret a) f w = f a w"
  by (simp add: then_do_def ret_def)

lemma then_do_throw: "then_do (throw e) f w = (Inl e, w)"
  by (simp add: then_do_def throw_def)

lemma then_do_value: "m w = (Inr a, w') \<Longrightarrow> then_do m f w = f a w'"
  by (simp add: then_do_def)

lemma then_do_raised: "m w = (Inl e, w') \<Longrightarrow> then_do m f w = (Inl e, w')"
  by (simp add: then_do_def)

lemma getattr_registry_value:
  "deref (configs w) app = Some cfg \<Longrightarrow> getattr_registry app w = (Inr (cfg_registry cfg), w)"
  by (simp add: getattr_registry_def)

lemma py_bool_value:
  "deref (registries w) r = Some s \<Longrightarrow> py_bool core r w = (Inr (Registry_bool core s), w)"
  by (simp add: py_bool_def)

lemma get_registry_frame: "snd (get_registry core app w) = w"
  by (simp add: get_registry_def then_do_def getattr_registry_def py_bool_def throw_def ret_def
      split: option.splits)

lemma SvcsMiddleware_get_registry_frame: "snd (SvcsMiddleware_get_registry core w) = w"
proof (cases "get_app_config ''django'' w")
  case (Pair res w')
  then have same: "w' = w"
    by (auto simp: get_app_config_def split: option.splits)
  show ?thesis
  proof (cases res)
    case (Inl e)
    with Pair same show ?thesis
      by (simp add: SvcsMiddleware_get_registry_def then_do_def)
  next
    case (Inr app)
    with Pair same show ?thesis
      by (auto simp: SvcsMiddleware_get_registry_def then_do_def throw_def isinstance_mixin_def
          get_registry_frame split: option.splits)
  qed
qed

lemma SvcsMiddleware_get_registry_same:
  assumes "installed_apps w' = installed_apps w" and "configs w' = configs w"
    and "registries w' = registries w"
  shows "fst (SvcsMiddleware_get_registry core w') = fst (SvcsMiddleware_get_registry core w)"
  using assms
  by (simp add: SvcsMiddleware_get_registry_def get_app_config_def isinstance_mixin_def
      get_registry_def getattr_registry_def py_bool_def then_do_def throw_def ret_def
      split: option.splits)

lemma SvcsMiddleware_call_resolved:
  assumes "fst (SvcsMiddleware_get_registry core w) = Inr reg"
    and "deref (requests w) request = Some attrs"
  shows "SvcsMiddleware_call core self request w =
           get_response self request
             (w\<lparr>containers := containers w @ [\<lparr>con_registry = reg, con_state = Container_new core\<rparr>],
                requests := (requests w)[request := attrs(KEY_CONTAINER core \<mapsto> length (containers w))]\<rparr>)"
proof -
  have resolve: "SvcsMiddleware_get_registry core w = (Inr reg, w)"
    using assms(1) SvcsMiddleware_get_registry_frame [of core w] by (simp add: prod_eq_iff)
  show ?thesis
    using assms(2)
    by (simp add: SvcsMiddleware_call_def then_do_def resolve Container_init_def
        setattr_request_def deref_def split: if_splits)
qed

lemma SvcsMiddleware_call_unresolved:
  assumes "fst (SvcsMiddleware_get_registry core w) = Inl e"
  shows "SvcsMiddleware_call core self request w = (Inl e, w)"
proof -
  have "SvcsMiddleware_get_registry core w = (Inl e, w)"
    using assms SvcsMiddleware_get_registry_frame [of core w] by (simp add: prod_eq_iff)
  then show ?thesis
    by (simp add: SvcsMiddleware_call_def then_do_def)
qed

lemma overwrite_factory_steps:
  assumes "deref (requests w) request = Some attrs" and "attrs (KEY_CONTAINER core) = Some c"
    and "deref (containers w) c = Some con"
    and "deref (registries w) (con_registry con) = Some s"
    and "Registry_register_factory core t f (default True (enter kw)) (ping kw)
           (on_registry_close kw) s = (res, s')"
  shows "overwrite_factory core request t f kw w =
           (case res of
              Inl x \<Rightarrow> (Inl x, w\<lparr>registries := (registries w)[con_registry con := s']\<rparr>)
            | Inr u \<Rightarrow>
                (fst (Container_close core (con_state con)),
                 w\<lparr>registries := (registries w)[con_registry con := s'],
                    containers := (containers w)
                      [c := con\<lparr>con_state := snd (Container_close core (con_state con))\<rparr>]\<rparr>))"
proof -
  have fetch: "svcs_from core request w = (Inr c, w)"
    using assms(1,2) by (simp add: svcs_from_def getattr_request_def)
  have attr: "getattr_con_registry c w = (Inr (con_registry con), w)"
    using assms(3) by (simp add: getattr_con_registry_def)
  have call: "on_registry (con_registry con)
      (Registry_register_factory core t f (default True (enter kw)) (ping kw) (on_registry_close kw)) w =
      (res, w\<lparr>registries := (registries w)[con_registry con := s']\<rparr>)"
    using assms(4,5) by (simp add: on_registry_def)
  have close: "Container_close_call core c
      (w\<lparr>registries := (registries w)[con_registry con := s']\<rparr>) =
      (fst (Container_close core (con_state con)),
       w\<lparr>registries := (registries w)[con_registry con := s'],
          containers := (containers w)
            [c := con\<lparr>con_state := snd (Container_close core (con_state con))\<rparr>]\<rparr>)"
    using assms(3) by (simp add: Container_close_call_def on_container_def split: prod.splits)
  show ?thesis
    by (simp add: overwrite_factory_def then_do_def fetch attr call close split: sum.splits)
qed

section \<open>Properties of the adapter\<close>

text \<open>
  C5. \<^verbatim>\<open>svcs_from(request)\<close> is a plain attribute read: it leaves the store, and so the
  request, as it was; on a request whose attribute \<^verbatim>\<open>_KEY_CONTAINER\<close> holds a container
  it returns that container, and on a request without the attribute it raises
  \<^verbatim>\<open>AttributeError\<close>, as \<^verbatim>\<open>getattr\<close> without a default does.
\<close>

theorem svcs_from_reads_stashed:
  assumes "deref (requests w) request = Some attrs"
  shows "snd (svcs_from core request w) = w \<and>
         fst (svcs_from core request w) =
           (case attrs (KEY_CONTAINER core) of None \<Rightarrow> Inl AttributeError | Some c \<Rightarrow> Inr c)"
  using assms by (simp add: svcs_from_def getattr_request_def split: option.splits)

theorem svcs_from_reads_stashed_witness:
  "deref (requests world2) 0 = Some [''svcs_container'' \<mapsto> 0] \<and>
   svcs_from recording_core 0 world2 = (Inr 0, world2) \<and>
   svcs_from recording_core 0 world1 = (Inl AttributeError, world1)"
proof -
  have a: "deref (requests world2) 0 = Some [''svcs_container'' \<mapsto> 0]"
    by (simp add: deref_def world2_def)
  have b: "deref (requests world1) 0 = Some Map.empty"
    by (simp add: deref_def world1_def)
  from svcs_from_reads_stashed [OF a, of recording_core]
  have "svcs_from recording_core 0 world2 = (Inr 0, world2)"
    by (simp add: recording_core_def prod_eq_iff)
  moreover from svcs_from_reads_stashed [OF b, of recording_core]
  have "svcs_from recording_core 0 world1 = (Inl AttributeError, world1)"
    by (simp add: recording_core_def prod_eq_iff)
  ultimately show ?thesis using a by simp
qed

text \<open>
  C2. \<^verbatim>\<open>get_registry(app)\<close> never changes the store. It raises \<^verbatim>\<open>ValueError\<close> when
  the app's \<^verbatim>\<open>registry\<close> attribute is unset (\<^verbatim>\<open>None\<close>), and returns the attribute when
  it is set. The code tests \<^verbatim>\<open>not app.registry\<close>, so "set" is read through the truth
  value of the registry: the registry returned is one that is a true value, as every
  instance of a class without \<^verbatim>\<open>__bool__\<close> and \<^verbatim>\<open>__len__\<close> is; the class itself is
  in the core.
\<close>

theorem get_registry_returns_or_raises:
  assumes "deref (configs w) app = Some cfg"
  shows "snd (get_registry core app w) = w \<and>
         (cfg_registry cfg = None \<longrightarrow> fst (get_registry core app w) = Inl ValueError) \<and>
         (\<forall>r s. cfg_registry cfg = Some r \<and> deref (registries w) r = Some s \<and> Registry_bool core s
            \<longrightarrow> fst (get_registry core app w) = Inr r)"
proof (intro conjI allI impI)
  show "snd (get_registry core app w) = w"
    by (rule get_registry_frame)
next
  assume "cfg_registry cfg = None"
  with assms show "fst (get_registry core app w) = Inl ValueError"
    by (simp add: get_registry_def then_do_def getattr_registry_def throw_def)
next
  fix r s
  assume "cfg_registry cfg = Some r \<and> deref (registries w) r = Some s \<and> Registry_bool core s"
  with assms show "fst (get_registry core app w) = Inr r"
    by (simp add: get_registry_def then_do_def getattr_registry_def py_bool_def ret_def)
qed

theorem get_registry_returns_or_raises_witness:
  "get_registry recording_core 0 world0 = (Inl ValueError, world0) \<and>
   get_registry recording_core 0 world1 = (Inr 0, world1)"
proof -
  have a: "deref (configs world0) 0 = Some \<lparr>is_svcs_mixin = True, cfg_registry = None\<rparr>"
    by (simp add: deref_def world0_def)
  have b: "deref (configs world1) 0 = Some \<lparr>is_svcs_mixin = True, cfg_registry = Some 0\<rparr>"
    by (simp add: deref_def world1_def)
  have c: "deref (registries world1) 0 = Some []"
    by (simp add: deref_def world1_def)
  from get_registry_returns_or_raises [OF a, of recording_core]
  have "get_registry recording_core 0 world0 = (Inl ValueError, world0)"
    by (simp add: prod_eq_iff)
  moreover from get_registry_returns_or_raises [OF b, of recording_core] c
  have "get_registry recording_core 0 world1 = (Inr 0, world1)"
    by (simp add: prod_eq_iff recording_core_def)
  ultimately show ?thesis by simp
qed

text \<open>
  C10. \<^verbatim>\<open>SvcsMiddleware._get_registry\<close> looks at the app config installed under the
  label \<^verbatim>\<open>django\<close>. It never changes the store, so it creates and modifies no registry.
  It raises \<^verbatim>\<open>TypeError\<close> when that config is not a \<^verbatim>\<open>DjangoSvcsAppConfigMixin\<close>,
  raises \<^verbatim>\<open>ValueError\<close> when the config's registry is unset, and otherwise returns the
  config's registry (a true value, see C2).
\<close>

theorem SvcsMiddleware_get_registry_outcomes:
  assumes "installed_apps w ''django'' = Some a" and "deref (configs w) a = Some cfg"
  shows "snd (SvcsMiddleware_get_registry core w) = w \<and>
         (\<not> is_svcs_mixin cfg \<longrightarrow> fst (SvcsMiddleware_get_registry core w) = Inl TypeError) \<and>
         (is_svcs_mixin cfg \<and> cfg_registry cfg = None
            \<longrightarrow> fst (SvcsMiddleware_get_registry core w) = Inl ValueError) \<and>
         (\<forall>r s. is_svcs_mixin cfg \<and> cfg_registry cfg = Some r \<and>
                deref (registries w) r = Some s \<and> Registry_bool core s
            \<longrightarrow> fst (SvcsMiddleware_get_registry core w) = Inr r)"
proof -
  have app: "get_app_config ''django'' w = (Inr (Some a), w)"
    using assms(1) by (simp add: get_app_config_def)
  have inst: "isinstance_mixin a w = (Inr (is_svcs_mixin cfg), w)"
    using assms(2) by (simp add: isinstance_mixin_def)
  have step: "SvcsMiddleware_get_registry core w =
      (if \<not> is_svcs_mixin cfg then (Inl TypeError, w) else get_registry core a w)"
    by (simp add: SvcsMiddleware_get_registry_def then_do_def app inst throw_def)
  have reg: "getattr_registry a w = (Inr (cfg_registry cfg), w)"
    using assms(2) by (rule getattr_registry_value)
  show ?thesis
  proof (intro conjI allI impI)
    show "snd (SvcsMiddleware_get_registry core w) = w"
      by (simp add: step get_registry_frame)
  next
    assume "\<not> is_svcs_mixin cfg"
    then show "fst (SvcsMiddleware_get_registry core w) = Inl TypeError"
      by (simp add: step)
  next
    assume "is_svcs_mixin cfg \<and> cfg_registry cfg = None"
    then show "fst (SvcsMiddleware_get_registry core w) = Inl ValueError"
      by (simp add: step get_registry_def then_do_def reg throw_def)
  next
    fix r s
    assume h: "is_svcs_mixin cfg \<and> cfg_registry cfg = Some r \<and>
      deref (registries w) r = Some s \<and> Registry_bool core s"
    then have "py_bool core r w = (Inr (Registry_bool core s), w)"
      by (simp add: py_bool_value)
    with h show "fst (SvcsMiddleware_get_registry core w) = Inr r"
      by (simp add: step get_registry_def then_do_def reg ret_def)
  qed
qed

theorem SvcsMiddleware_get_registry_outcomes_witness:
  "SvcsMiddleware_get_registry recording_core world0 = (Inl ValueError, world0) \<and>
   SvcsMiddleware_get_registry recording_core world1 = (Inr 0, world1) \<and>
   SvcsMiddleware_get_registry recording_core
     (world1\<lparr>configs := [\<lparr>is_svcs_mixin = False, cfg_registry = None\<rparr>]\<rparr>) =
     (Inl TypeError, world1\<lparr>configs := [\<lparr>is_svcs_mixin = False, cfg_registry = None\<rparr>]\<rparr>)"
proof -
  let ?plain = "world1\<lparr>configs := [\<lparr>is_svcs_mixin = False, cfg_registry = None\<rparr>]\<rparr>"
  have a0: "installed_apps world0 ''django'' = Some 0"
    and c0: "deref (configs world0) 0 = Some \<lparr>is_svcs_mixin = True, cfg_registry = None\<rparr>"
    by (simp_all add: deref_def world0_def)
  have a1: "installed_apps world1 ''django'' = Some 0"
    and c1: "deref (configs world1) 0 = Some \<lparr>is_svcs_mixin = True, cfg_registry = Some 0\<rparr>"
    and r1: "deref (registries world1) 0 = Some []"
    by (simp_all add: deref_def world1_def)
  have a2: "installed_apps ?plain ''django'' = Some 0"
    and c2: "deref (configs ?plain) 0 = Some \<lparr>is_svcs_mixin = False, cfg_registry = None\<rparr>"
    by (simp_all add: deref_def world1_def)
  from SvcsMiddleware_get_registry_outcomes [OF a0 c0, of recording_core]
  have "SvcsMiddleware_get_registry recording_core world0 = (Inl ValueError, world0)"
    by (simp add: prod_eq_iff)
  moreover from SvcsMiddleware_get_registry_outcomes [OF a1 c1, of recording_core] r1
  have "SvcsMiddleware_get_registry recording_core world1 = (Inr 0, world1)"
    by (simp add: prod_eq_iff recording_core_def)
  moreover from SvcsMiddleware_get_registry_outcomes [OF a2 c2, of recording_core]
  have "SvcsMiddleware_get_registry recording_core ?plain = (Inl TypeError, ?plain)"
    by (simp add: prod_eq_iff)
  ultimately show ?thesis by simp
qed

text \<open>
  C8. \<^verbatim>\<open>DjangoSvcsAppConfigMixin.ready()\<close> is idempotent. On a config whose registry is
  unset it constructs a registry (a new object: its reference is none of the store's) and
  installs it. On a config whose registry is set, every later call changes nothing, whatever
  happened to the store in between, so two calls in a row do what one does. The test in the
  code is \<^verbatim>\<open>not self.registry\<close>: the installed registry is kept because it is a true
  value, as every instance of a class without \<^verbatim>\<open>__bool__\<close> and \<^verbatim>\<open>__len__\<close> is.
\<close>

theorem ready_idempotent:
  assumes "deref (configs w) self = Some cfg" and "cfg_registry cfg = None"
    and "\<forall>s. Registry_bool core s"
  shows "ready core self w =
           (Inr (), w\<lparr>registries := registries w @ [Registry_new core],
                        configs := (configs w)[self := cfg\<lparr>cfg_registry := Some (length (registries w))\<rparr>]\<rparr>) \<and>
         deref (registries w) (length (registries w)) = None \<and>
         (\<forall>w' cfg' r. deref (configs w') self = Some cfg' \<and> cfg_registry cfg' = Some r
            \<longrightarrow> ready core self w' = (Inr (), w')) \<and>
         then_do (ready core self) (\<lambda>_. ready core self) w = ready core self w"
proof -
  let ?w1 = "w\<lparr>registries := registries w @ [Registry_new core],
                configs := (configs w)[self := cfg\<lparr>cfg_registry := Some (length (registries w))\<rparr>]\<rparr>"
  have first: "ready core self w = (Inr (), ?w1)"
    using assms(1,2)
    by (auto simp: ready_def then_do_def getattr_registry_def py_not_def ret_def Registry_init_def
        setattr_registry_def deref_def split: if_splits)
  have later: "ready core self w' = (Inr (), w')"
    if "deref (configs w') self = Some cfg'" and "cfg_registry cfg' = Some r" for w' cfg' r
    using that assms(3)
    by (simp add: ready_def then_do_def getattr_registry_def py_not_def py_bool_def ret_def
        split: option.splits)
  have "deref (configs ?w1) self = Some (cfg\<lparr>cfg_registry := Some (length (registries w))\<rparr>)"
    using assms(1) by (simp add: deref_def split: if_splits)
  then have "ready core self ?w1 = (Inr (), ?w1)"
    by (rule later) simp
  then have twice: "then_do (ready core self) (\<lambda>_. ready core self) w = ready core self w"
    by (simp add: then_do_def first)
  show ?thesis
    using first later twice by (simp add: deref_def)
qed

theorem ready_idempotent_witness:
  "ready recording_core 0 world0 = (Inr (), world1) \<and>
   ready recording_core 0 world1 = (Inr (), world1) \<and>
   then_do (ready recording_core 0) (\<lambda>_. ready recording_core 0) world0 = (Inr (), world1)"
proof -
  have c0: "deref (configs world0) 0 = Some \<lparr>is_svcs_mixin = True, cfg_registry = None\<rparr>"
    by (simp add: deref_def world0_def)
  have n0: "cfg_registry \<lparr>is_svcs_mixin = True, cfg_registry = None\<rparr> = None"
    by simp
  have t: "\<forall>s. Registry_bool recording_core s"
    by (simp add: recording_core_def)
  have c1: "deref (configs world1) 0 = Some \<lparr>is_svcs_mixin = True, cfg_registry = Some 0\<rparr>"
    by (simp add: deref_def world1_def)
  have w: "world0\<lparr>registries := registries world0 @ [Registry_new recording_core],
      configs := (configs world0)[0 := \<lparr>is_svcs_mixin = True, cfg_registry = None\<rparr>
        \<lparr>cfg_registry := Some (length (registries world0))\<rparr>]\<rparr> = world1"
    by (simp add: world0_def world1_def recording_core_def)
  note inst = ready_idempotent [OF c0 n0 t]
  from inst have first: "ready recording_core 0 world0 = (Inr (), world1)"
    by (simp only: w)
  from inst c1 have "ready recording_core 0 world1 = (Inr (), world1)"
    by simp
  moreover from inst first
  have "then_do (ready recording_core 0) (\<lambda>_. ready recording_core 0) world0 = (Inr (), world1)"
    by simp
  ultimately show ?thesis using first by simp
qed

text \<open>
  C4. On a config with a registry, \<^verbatim>\<open>register_factory\<close> is one call of that registry's
  \<^verbatim>\<open>register_factory\<close> with the same service type, factory, \<^verbatim>\<open>ping\<close> and
  \<^verbatim>\<open>on_registry_close\<close>, and with \<^verbatim>\<open>enter\<close> as given or \<^verbatim>\<open>True\<close> when left out:
  it returns or raises what the call does, and the store changes in that registry only, to
  the state the call leaves. \<^verbatim>\<open>register_value\<close> is the same for the registry's
  \<^verbatim>\<open>register_value\<close>, with \<^verbatim>\<open>enter\<close> defaulting to \<^verbatim>\<open>False\<close>.
\<close>

theorem register_forwards_verbatim:
  assumes "deref (configs w) config = Some cfg" and "cfg_registry cfg = Some r"
    and "deref (registries w) r = Some s"
  shows "register_factory core config t f \<lparr>enter = e, ping = p, on_registry_close = oc\<rparr> w =
           (fst (Registry_register_factory core t f (case e of None \<Rightarrow> True | Some b \<Rightarrow> b) p oc s),
            w\<lparr>registries := (registries w)
               [r := snd (Registry_register_factory core t f
                            (case e of None \<Rightarrow> True | Some b \<Rightarrow> b) p oc s)]\<rparr>) \<and>
         register_value core config t v \<lparr>enter = e, ping = p, on_registry_close = oc\<rparr> w =
           (fst (Registry_register_value core t v (case e of None \<Rightarrow> False | Some b \<Rightarrow> b) p oc s),
            w\<lparr>registries := (registries w)
               [r := snd (Registry_register_value core t v
                            (case e of None \<Rightarrow> False | Some b \<Rightarrow> b) p oc s)]\<rparr>)"
proof -
  have reg: "getattr_registry config w = (Inr (Some r), w)"
    using assms(1,2) by (simp add: getattr_registry_def)
  have call: "on_registry r m w = (fst (m s), w\<lparr>registries := (registries w)[r := snd (m s)]\<rparr>)"
    for m :: "(unit, 'a) prog"
    using assms(3) by (simp add: on_registry_def split: prod.splits)
  show ?thesis
    by (simp add: register_factory_def register_value_def then_do_def reg call default_def)
qed

theorem register_forwards_verbatim_witness:
  "register_factory recording_core 0 ''Service'' ''make_service''
     \<lparr>enter = None, ping = None, on_registry_close = None\<rparr> world1 =
     (Inr (), world1\<lparr>registries := [[RegisterFactory ''Service'' ''make_service'' True None None]]\<rparr>) \<and>
   register_factory recording_core 0 ''Service'' ''make_service''
     \<lparr>enter = Some False, ping = Some ''ping'', on_registry_close = Some ''bye''\<rparr> world1 =
     (Inr (), world1\<lparr>registries :=
        [[RegisterFactory ''Service'' ''make_service'' False (Some ''ping'') (Some ''bye'')]]\<rparr>) \<and>
   register_value recording_core 0 ''Service'' ''42''
     \<lparr>enter = None, ping = None, on_registry_close = None\<rparr> world1 =
     (Inr (), world1\<lparr>registries := [[RegisterValue ''Service'' ''42'' False None None]]\<rparr>)"
proof -
  have c1: "deref (configs world1) 0 = Some \<lparr>is_svcs_mixin = True, cfg_registry = Some 0\<rparr>"
    and r1: "deref (registries world1) 0 = Some []"
    by (simp_all add: deref_def world1_def)
  have s1: "cfg_registry \<lparr>is_svcs_mixin = True, cfg_registry = Some 0\<rparr> = Some 0"
    by simp
  have regs: "registries world1 = [[]]"
    by (simp add: world1_def)
  note inst = register_forwards_verbatim [OF c1 s1 r1]
  from inst [where core = recording_core and t = "''Service''" and f = "''make_service''"
      and e = None and p = None and oc = None]
  have "register_factory recording_core 0 ''Service'' ''make_service''
     \<lparr>enter = None, ping = None, on_registry_close = None\<rparr> world1 =
     (Inr (), world1\<lparr>registries := [[RegisterFactory ''Service'' ''make_service'' True None None]]\<rparr>)"
    by (simp add: recording_core_def regs)
  moreover from inst [where core = recording_core and t = "''Service''" and f = "''make_service''"
      and e = "Some False" and p = "Some ''ping''" and oc = "Some ''bye''"]
  have "register_factory recording_core 0 ''Service'' ''make_service''
     \<lparr>enter = Some False, ping = Some ''ping'', on_registry_close = Some ''bye''\<rparr> world1 =
     (Inr (), world1\<lparr>registries :=
        [[RegisterFactory ''Service'' ''make_service'' False (Some ''ping'') (Some ''bye'')]]\<rparr>)"
    by (simp add: recording_core_def regs)
  moreover from inst [where core = recording_core and t = "''Service''" and v = "''42''"
      and e = None and p = None and oc = None]
  have "register_value recording_core 0 ''Service'' ''42''
     \<lparr>enter = None, ping = None, on_registry_close = None\<rparr> world1 =
     (Inr (), world1\<lparr>registries := [[RegisterValue ''Service'' ''42'' False None None]]\<rparr>)"
    by (simp add: recording_core_def regs)
  ultimately show ?thesis by simp
qed

text \<open>
  C1. \<^verbatim>\<open>SvcsMiddleware.__call__\<close>, for a registry resolved by \<^verbatim>\<open>_get_registry\<close>:
  the middleware constructs a new container on that registry, stores it on the request under
  \<^verbatim>\<open>_KEY_CONTAINER\<close> and returns exactly what the next handler returns on that request,
  run in the store holding the new container. When the registry is not resolved the
  exception of \<^verbatim>\<open>_get_registry\<close> propagates: nothing is constructed and the handler
  is not called.
\<close>

theorem SvcsMiddleware_call_stashes_and_forwards:
  assumes "deref (requests w) request = Some attrs"
  shows "(\<forall>reg. fst (SvcsMiddleware_get_registry core w) = Inr reg \<longrightarrow>
            SvcsMiddleware_call core self request w =
              get_response self request
                (w\<lparr>containers := containers w @ [\<lparr>con_registry = reg, con_state = Container_new core\<rparr>],
                   requests := (requests w)[request := attrs(KEY_CONTAINER core \<mapsto> length (containers w))]\<rparr>)) \<and>
         (\<forall>e. fst (SvcsMiddleware_get_registry core w) = Inl e \<longrightarrow>
            SvcsMiddleware_call core self request w = (Inl e, w))"
  using assms SvcsMiddleware_call_resolved SvcsMiddleware_call_unresolved by blast

theorem SvcsMiddleware_call_stashes_and_forwards_witness:
  "SvcsMiddleware_call recording_core (SvcsMiddleware_init (\<lambda>request. ret ''response'')) 0 world1 =
     (Inr ''response'', world2) \<and>
   SvcsMiddleware_call recording_core (SvcsMiddleware_init (\<lambda>request. ret ''response'')) 0 world0 =
     (Inl ValueError, world0)"
proof -
  let ?mw = "SvcsMiddleware_init (\<lambda>request. ret ''response'') ::
    ((reg_call list, con_call list) world, string) SvcsMiddleware"
  have q0: "deref (requests world0) 0 = Some Map.empty"
    and q1: "deref (requests world1) 0 = Some Map.empty"
    by (simp_all add: deref_def world0_def world1_def)
  have g0: "fst (SvcsMiddleware_get_registry recording_core world0) = Inl ValueError"
    by (simp add: SvcsMiddleware_get_registry_def get_app_config_def isinstance_mixin_def
        get_registry_def getattr_registry_def then_do_def throw_def deref_def world0_def)
  have g1: "fst (SvcsMiddleware_get_registry recording_core world1) = Inr 0"
    by (simp add: SvcsMiddleware_get_registry_def get_app_config_def isinstance_mixin_def
        get_registry_def getattr_registry_def py_bool_def then_do_def ret_def deref_def
        world1_def recording_core_def)
  have w: "world1\<lparr>containers := containers world1 @
        [\<lparr>con_registry = 0, con_state = Container_new recording_core\<rparr>],
      requests := (requests world1)
        [0 := Map.empty(KEY_CONTAINER recording_core \<mapsto> length (containers world1))]\<rparr> = world2"
    by (simp add: world1_def world2_def recording_core_def)
  from SvcsMiddleware_call_stashes_and_forwards [OF q1, of recording_core ?mw] g1
  have "SvcsMiddleware_call recording_core ?mw 0 world1 = (Inr ''response'', world2)"
    by (simp add: w SvcsMiddleware_init_def ret_def)
  moreover from SvcsMiddleware_call_stashes_and_forwards [OF q0, of recording_core ?mw] g0
  have "SvcsMiddleware_call recording_core ?mw 0 world0 = (Inl ValueError, world0)"
    by simp
  ultimately show ?thesis by simp
qed

text \<open>
  C7. Stash and fetch, request by request. The middleware passes the request on in the
  store that differs from the one it started in by one new container, built on the resolved
  registry (its reference is none of the earlier store), and by the container attribute of
  that request, which now holds the new container whatever it held before. In that store,
  and in every later store of the handler's run in which the request still carries that
  attribute value, \<^verbatim>\<open>svcs_from(request)\<close> returns the new container. The answer belongs
  to the request: for every other request \<^verbatim>\<open>svcs_from\<close> answers as it did before the
  middleware ran, and the containers that existed are untouched. So when the middleware
  has served one request and then another, inside the second handler each of the two
  requests still fetches its own container, and the two containers differ.
\<close>

theorem stash_then_fetch:
  assumes "fst (SvcsMiddleware_get_registry core w) = Inr reg"
    and "deref (requests w) request = Some attrs"
  shows "(let n = length (containers w);
              w' = w\<lparr>containers := containers w @ [\<lparr>con_registry = reg, con_state = Container_new core\<rparr>],
                     requests := (requests w)[request := attrs(KEY_CONTAINER core \<mapsto> length (containers w))]\<rparr>
          in SvcsMiddleware_call core self request w = get_response self request w' \<and>
             svcs_from core request w' = (Inr n, w') \<and>
             deref (containers w') n = Some \<lparr>con_registry = reg, con_state = Container_new core\<rparr> \<and>
             deref (containers w) n = None \<and>
             (\<forall>c. c \<noteq> n \<longrightarrow> deref (containers w') c = deref (containers w) c) \<and>
             (\<forall>q. q \<noteq> request \<longrightarrow> svcs_from core q w' = (fst (svcs_from core q w), w')) \<and>
             (\<forall>w'' attrs''. deref (requests w'') request = Some attrs'' \<and>
                 attrs'' (KEY_CONTAINER core) = Some n \<longrightarrow>
                 svcs_from core request w'' = (Inr n, w'')) \<and>
             fst (SvcsMiddleware_call core (SvcsMiddleware_init (svcs_from core)) request w) = Inr n \<and>
             (\<forall>q attrs\<^sub>q. q \<noteq> request \<and> deref (requests w) q = Some attrs\<^sub>q \<longrightarrow>
                 fst (then_do (SvcsMiddleware_call core (SvcsMiddleware_init (\<lambda>r. ret ())) request)
                        (\<lambda>u. SvcsMiddleware_call core
                           (SvcsMiddleware_init (\<lambda>r.
                              then_do (svcs_from core request) (\<lambda>a.
                              then_do (svcs_from core r) (\<lambda>b. ret (a, b))))) q) w) =
                   Inr (n, Suc n)))"
proof -
  define n where "n = length (containers w)"
  define w' where "w' = w\<lparr>containers := containers w @ [\<lparr>con_registry = reg, con_state = Container_new core\<rparr>],
                requests := (requests w)[request := attrs(KEY_CONTAINER core \<mapsto> length (containers w))]\<rparr>"
  have len: "request < length (requests w)"
    using assms(2) by (simp add: deref_def split: if_splits)
  note call = SvcsMiddleware_call_resolved [OF assms, folded w'_def]
  have fetch: "svcs_from core request w' = (Inr n, w')"
    using len by (simp add: svcs_from_def getattr_request_def deref_def w'_def n_def)
  have new: "deref (containers w') n = Some \<lparr>con_registry = reg, con_state = Container_new core\<rparr>"
    by (simp add: deref_def w'_def n_def)
  have fresh: "deref (containers w) n = None"
    by (simp add: deref_def n_def)
  have kept: "deref (containers w') c = deref (containers w) c" if "c \<noteq> n" for c
    using that by (auto simp: deref_def w'_def n_def nth_append)
  have others: "svcs_from core q w' = (fst (svcs_from core q w), w')" if "q \<noteq> request" for q
    using that
    by (simp add: svcs_from_def getattr_request_def deref_def w'_def split: option.splits)
  have later: "svcs_from core request w'' = (Inr n, w'')"
    if "deref (requests w'') request = Some attrs''" and "attrs'' (KEY_CONTAINER core) = Some n"
    for w'' :: "('a, 'b) world" and attrs''
    using that by (simp add: svcs_from_def getattr_request_def)
  have self_fetch: "fst (SvcsMiddleware_call core (SvcsMiddleware_init (svcs_from core)) request w) = Inr n"
    by (simp add: call SvcsMiddleware_init_def fetch)
  have two: "fst (then_do (SvcsMiddleware_call core (SvcsMiddleware_init (\<lambda>r. ret ())) request)
                (\<lambda>u. SvcsMiddleware_call core
                   (SvcsMiddleware_init (\<lambda>r.
                      then_do (svcs_from core request) (\<lambda>a.
                      then_do (svcs_from core r) (\<lambda>b. ret (a, b))))) q) w) =
             Inr (n, Suc n)"
    if "q \<noteq> request" and "deref (requests w) q = Some attrs\<^sub>q" for q attrs\<^sub>q
  proof -
    let ?w2 = "w'\<lparr>containers := containers w' @ [\<lparr>con_registry = reg, con_state = Container_new core\<rparr>],
                  requests := (requests w')[q := attrs\<^sub>q(KEY_CONTAINER core \<mapsto> length (containers w'))]\<rparr>"
    have lq: "q < length (requests w)"
      using that(2) by (simp add: deref_def split: if_splits)
    have first: "SvcsMiddleware_call core (SvcsMiddleware_init (\<lambda>r. ret ())) request w = (Inr (), w')"
      by (simp add: call SvcsMiddleware_init_def ret_def)
    have "fst (SvcsMiddleware_get_registry core w') = fst (SvcsMiddleware_get_registry core w)"
      by (rule SvcsMiddleware_get_registry_same) (simp_all add: w'_def)
    with assms(1) have again: "fst (SvcsMiddleware_get_registry core w') = Inr reg"
      by simp
    have q': "deref (requests w') q = Some attrs\<^sub>q"
      using that by (simp add: deref_def w'_def split: if_splits)
    note second = SvcsMiddleware_call_resolved [OF again q']
    have a: "svcs_from core request ?w2 = (Inr n, ?w2)"
      using that(1) len lq
      by (simp add: svcs_from_def getattr_request_def deref_def w'_def n_def)
    have b: "svcs_from core q ?w2 = (Inr (Suc n), ?w2)"
      using that(1) len lq
      by (simp add: svcs_from_def getattr_request_def deref_def w'_def n_def)
    have "then_do (SvcsMiddleware_call core (SvcsMiddleware_init (\<lambda>r. ret ())) request)
            (\<lambda>u. SvcsMiddleware_call core
               (SvcsMiddleware_init (\<lambda>r.
                  then_do (svcs_from core request) (\<lambda>a.
                  then_do (svcs_from core r) (\<lambda>b. ret (a, b))))) q) w =
          SvcsMiddleware_call core
            (SvcsMiddleware_init (\<lambda>r.
               then_do (svcs_from core request) (\<lambda>a.
               then_do (svcs_from core r) (\<lambda>b. ret (a, b))))) q w'"
      by (simp add: then_do_def first)
    also have "\<dots> = (Inr (n, Suc n), ?w2)"
      by (simp add: second SvcsMiddleware_init_def then_do_def a b ret_def)
    finally show ?thesis
      by simp
  qed
  note facts = call [of self] fetch new fresh kept others later self_fetch two
  show ?thesis
    unfolding Let_def using facts [unfolded w'_def n_def] by blast
qed

theorem stash_then_fetch_witness:
  "fst (SvcsMiddleware_call recording_core (SvcsMiddleware_init (svcs_from recording_core)) 0 world2) =
     Inr 1 \<and>
   svcs_from recording_core 1
     (world4\<lparr>containers := [\<lparr>con_registry = 0, con_state = []\<rparr>],
             requests := [[''svcs_container'' \<mapsto> 0], Map.empty]\<rparr>) =
     (Inl AttributeError,
      world4\<lparr>containers := [\<lparr>con_registry = 0, con_state = []\<rparr>],
             requests := [[''svcs_container'' \<mapsto> 0], Map.empty]\<rparr>) \<and>
   fst (then_do (SvcsMiddleware_call recording_core (SvcsMiddleware_init (\<lambda>r. ret ())) 0)
          (\<lambda>u. SvcsMiddleware_call recording_core
             (SvcsMiddleware_init (\<lambda>r.
                then_do (svcs_from recording_core 0) (\<lambda>a.
                then_do (svcs_from recording_core r) (\<lambda>b. ret (a, b))))) 1) world4) =
     Inr (0, 1)"
proof -
  have q2: "deref (requests world2) 0 = Some [''svcs_container'' \<mapsto> 0]"
    and q4: "deref (requests world4) 0 = Some Map.empty"
    and q4': "deref (requests world4) 1 = Some Map.empty"
    by (simp_all add: deref_def world2_def world4_def)
  have g2: "fst (SvcsMiddleware_get_registry recording_core world2) = Inr 0"
    by (simp add: SvcsMiddleware_get_registry_def get_app_config_def isinstance_mixin_def
        get_registry_def getattr_registry_def py_bool_def then_do_def ret_def deref_def
        world2_def recording_core_def)
  have g4: "fst (SvcsMiddleware_get_registry recording_core world4) = Inr 0"
    by (simp add: SvcsMiddleware_get_registry_def get_app_config_def isinstance_mixin_def
        get_registry_def getattr_registry_def py_bool_def then_do_def ret_def deref_def
        world4_def recording_core_def)
  have l2: "length (containers world2) = 1" and l4: "length (containers world4) = 0"
    by (simp_all add: world2_def world4_def)
  have e4: "fst (svcs_from recording_core 1 world4) = Inl AttributeError"
    by (simp add: svcs_from_def getattr_request_def deref_def world4_def)
  have w4: "world4\<lparr>containers := containers world4 @
        [\<lparr>con_registry = 0, con_state = Container_new recording_core\<rparr>],
      requests := (requests world4)
        [0 := Map.empty(KEY_CONTAINER recording_core \<mapsto> length (containers world4))]\<rparr> =
      world4\<lparr>containers := [\<lparr>con_registry = 0, con_state = []\<rparr>],
             requests := [[''svcs_container'' \<mapsto> 0], Map.empty]\<rparr>"
    by (simp add: world4_def recording_core_def)
  note at2 = stash_then_fetch [OF g2 q2, where self = "SvcsMiddleware_init (\<lambda>r. throw TypeError)",
      unfolded Let_def]
  note at4 = stash_then_fetch [OF g4 q4, where self = "SvcsMiddleware_init (\<lambda>r. throw TypeError)",
      unfolded Let_def]
  note fetch_self = at2 [THEN conjunct2, THEN conjunct2, THEN conjunct2, THEN conjunct2, THEN conjunct2, THEN conjunct2, THEN conjunct2, THEN conjunct1]
  note others = at4 [THEN conjunct2, THEN conjunct2, THEN conjunct2, THEN conjunct2, THEN conjunct2, THEN conjunct1, THEN spec, of 1]
  note two = at4 [THEN conjunct2, THEN conjunct2, THEN conjunct2, THEN conjunct2, THEN conjunct2, THEN conjunct2, THEN conjunct2, THEN conjunct2, THEN spec, THEN spec, of 1 Map.empty]
  from fetch_self have
    "fst (SvcsMiddleware_call recording_core (SvcsMiddleware_init (svcs_from recording_core)) 0 world2) =
       Inr 1"
    by (simp add: l2)
  moreover from others e4 have
    "svcs_from recording_core 1
       (world4\<lparr>containers := [\<lparr>con_registry = 0, con_state = []\<rparr>],
               requests := [[''svcs_container'' \<mapsto> 0], Map.empty]\<rparr>) =
     (Inl AttributeError,
      world4\<lparr>containers := [\<lparr>con_registry = 0, con_state = []\<rparr>],
              requests := [[''svcs_container'' \<mapsto> 0], Map.empty]\<rparr>)"
    by (simp add: w4)
  moreover from two q4' have
    "fst (then_do (SvcsMiddleware_call recording_core (SvcsMiddleware_init (\<lambda>r. ret ())) 0)
          (\<lambda>u. SvcsMiddleware_call recording_core
             (SvcsMiddleware_init (\<lambda>r.
                then_do (svcs_from recording_core 0) (\<lambda>a.
                then_do (svcs_from recording_core r) (\<lambda>b. ret (a, b))))) 1) world4) =
     Inr (0, 1)"
    by (simp add: l4)
  ultimately show ?thesis by simp
qed

text \<open>
  C6. On a request carrying a stashed container, \<^verbatim>\<open>get(request, *svc_types)\<close> is the
  container's \<^verbatim>\<open>get(*svc_types)\<close>: it returns or raises what that call does on the
  container's state and the state of the container's registry, and the store changes in
  that container only, to the state the call leaves.
\<close>

theorem get_forwards_to_container:
  assumes "deref (requests w) request = Some attrs" and "attrs (KEY_CONTAINER core) = Some c"
    and "deref (containers w) c = Some con"
    and "deref (registries w) (con_registry con) = Some s"
  shows "get core request svc_types w =
           (fst (Container_get core svc_types s (con_state con)),
            w\<lparr>containers := (containers w)
               [c := con\<lparr>con_state := snd (Container_get core svc_types s (con_state con))\<rparr>]\<rparr>)"
proof -
  have fetch: "svcs_from core request w = (Inr c, w)"
    using assms(1,2) by (simp add: svcs_from_def getattr_request_def)
  show ?thesis
    using assms(3,4)
    by (simp add: get_def Container_get_call_def getattr_con_registry_def registry_state_def
        then_do_def fetch on_container_def split: prod.splits)
qed

theorem get_forwards_to_container_witness:
  "get recording_core 0 [''Service'']
     (world2\<lparr>registries := [[RegisterValue ''Service'' ''42'' False None None]]\<rparr>) =
     (Inr [''42''],
      world2\<lparr>registries := [[RegisterValue ''Service'' ''42'' False None None]],
             containers := [\<lparr>con_registry = 0, con_state = [Get [''Service'']]\<rparr>]\<rparr>) \<and>
   get recording_core 0 [''Service''] world2 =
     (Inl (CoreError ''ServiceNotFoundError''),
      world2\<lparr>containers := [\<lparr>con_registry = 0, con_state = [Get [''Service'']]\<rparr>]\<rparr>)"
proof -
  let ?w = "world2\<lparr>registries := [[RegisterValue ''Service'' ''42'' False None None]]\<rparr>"
  have q: "deref (requests ?w) 0 = Some [''svcs_container'' \<mapsto> 0]"
    and q2: "deref (requests world2) 0 = Some [''svcs_container'' \<mapsto> 0]"
    and k: "[''svcs_container'' \<mapsto> (0::nat)] (KEY_CONTAINER recording_core) = Some 0"
    and c: "deref (containers ?w) 0 = Some \<lparr>con_registry = 0, con_state = []\<rparr>"
    and c2: "deref (containers world2) 0 = Some \<lparr>con_registry = 0, con_state = []\<rparr>"
    by (simp_all add: deref_def world2_def recording_core_def)
  have r: "deref (registries ?w) (con_registry \<lparr>con_registry = 0, con_state = ([]::con_call list)\<rparr>) =
      Some [RegisterValue ''Service'' ''42'' False None None]"
    and r2: "deref (registries world2) (con_registry \<lparr>con_registry = 0, con_state = ([]::con_call list)\<rparr>) =
      Some []"
    by (simp_all add: deref_def world2_def)
  have cs: "containers world2 = [\<lparr>con_registry = 0, con_state = []\<rparr>]"
    by (simp add: world2_def)
  from get_forwards_to_container [OF q k c r, of "[''Service'']"]
  have "get recording_core 0 [''Service''] ?w =
     (Inr [''42''], ?w\<lparr>containers := [\<lparr>con_registry = 0, con_state = [Get [''Service'']]\<rparr>]\<rparr>)"
    by (simp add: recording_core_def recording_get_def cs)
  moreover from get_forwards_to_container [OF q2 k c2 r2, of "[''Service'']"]
  have "get recording_core 0 [''Service''] world2 =
     (Inl (CoreError ''ServiceNotFoundError''),
      world2\<lparr>containers := [\<lparr>con_registry = 0, con_state = [Get [''Service'']]\<rparr>]\<rparr>)"
    by (simp add: recording_core_def recording_get_def cs)
  ultimately show ?thesis by simp
qed

text \<open>
  C3. \<^verbatim>\<open>overwrite_factory\<close> passes its arguments on unchanged to \<^verbatim>\<open>register_factory\<close>
  of the registry of the container stashed on the request (\<^verbatim>\<open>enter\<close> as given, or
  \<^verbatim>\<open>True\<close> when left out). That one call is all that happens to registries: the registry
  store changes at that registry only, to the state the call leaves. The requests, the app
  configs and the app table are as they were, and when the call raises, its exception
  propagates and the containers are untouched.
\<close>

theorem overwrite_factory_forwards_verbatim:
  assumes "deref (requests w) request = Some attrs" and "attrs (KEY_CONTAINER core) = Some c"
    and "deref (containers w) c = Some con"
    and "deref (registries w) (con_registry con) = Some s"
  shows "registries (snd (overwrite_factory core request t f
                            \<lparr>enter = e, ping = p, on_registry_close = oc\<rparr> w)) =
           (registries w)
             [con_registry con :=
                snd (Registry_register_factory core t f (case e of None \<Rightarrow> True | Some b \<Rightarrow> b) p oc s)] \<and>
         requests (snd (overwrite_factory core request t f
                          \<lparr>enter = e, ping = p, on_registry_close = oc\<rparr> w)) = requests w \<and>
         configs (snd (overwrite_factory core request t f
                         \<lparr>enter = e, ping = p, on_registry_close = oc\<rparr> w)) = configs w \<and>
         installed_apps (snd (overwrite_factory core request t f
                                \<lparr>enter = e, ping = p, on_registry_close = oc\<rparr> w)) = installed_apps w \<and>
         (\<forall>x. fst (Registry_register_factory core t f (case e of None \<Rightarrow> True | Some b \<Rightarrow> b) p oc s) = Inl x
            \<longrightarrow> fst (overwrite_factory core request t f
                          \<lparr>enter = e, ping = p, on_registry_close = oc\<rparr> w) = Inl x \<and>
                containers (snd (overwrite_factory core request t f
                                   \<lparr>enter = e, ping = p, on_registry_close = oc\<rparr> w)) = containers w)"
proof -
  let ?kw = "\<lparr>enter = e, ping = p, on_registry_close = oc\<rparr>"
  obtain res s' where call:
    "Registry_register_factory core t f (default True (enter ?kw)) (ping ?kw)
       (on_registry_close ?kw) s = (res, s')"
    by (cases "Registry_register_factory core t f (default True (enter ?kw)) (ping ?kw)
       (on_registry_close ?kw) s") blast
  then have call': "Registry_register_factory core t f (case e of None \<Rightarrow> True | Some b \<Rightarrow> b) p oc s =
      (res, s')"
    by (simp add: default_def)
  show ?thesis
    by (cases res) (simp_all add: overwrite_factory_steps [OF assms call] call')
qed

theorem overwrite_factory_forwards_verbatim_witness:
  "registries (snd (overwrite_factory recording_core 0 ''Service'' ''fake''
       \<lparr>enter = None, ping = Some ''ping'', on_registry_close = None\<rparr> world2)) =
     [[RegisterFactory ''Service'' ''fake'' True (Some ''ping'') None]] \<and>
   requests (snd (overwrite_factory recording_core 0 ''Service'' ''fake''
       \<lparr>enter = None, ping = Some ''ping'', on_registry_close = None\<rparr> world2)) = requests world2"
proof -
  have q: "deref (requests world2) 0 = Some [''svcs_container'' \<mapsto> 0]"
    and k: "[''svcs_container'' \<mapsto> (0::nat)] (KEY_CONTAINER recording_core) = Some 0"
    and c: "deref (containers world2) 0 = Some \<lparr>con_registry = 0, con_state = []\<rparr>"
    by (simp_all add: deref_def world2_def recording_core_def)
  have r: "deref (registries world2) (con_registry \<lparr>con_registry = 0, con_state = ([]::con_call list)\<rparr>) =
      Some []"
    by (simp add: deref_def world2_def)
  have regs: "registries world2 = [[]]"
    by (simp add: world2_def)
  from overwrite_factory_forwards_verbatim [OF q k c r,
      where t = "''Service''" and f = "''fake''" and e = None and p = "Some ''ping''" and oc = None]
  show ?thesis
    by (simp add: recording_core_def regs)
qed

text \<open>
  C9, as stated: after \<^verbatim>\<open>overwrite_factory\<close> returns, the stashed container is closed
  and the factory is registered on the container's registry, not on the app config's.
  The second half fails on the store the middleware itself builds: the container is
  constructed on the app config's registry, the two are one object, and the registration
  made through the container is a registration on the app config's registry.
\<close>

theorem overwrite_factory_reaches_app_registry:
  "SvcsMiddleware_call recording_core (SvcsMiddleware_init (svcs_from recording_core)) 0 world1 =
     (Inr 0, world2) \<and>
   cfg_registry (configs world2 ! 0) = Some 0 \<and>
   con_registry (containers world2 ! 0) = 0 \<and>
   registries world2 ! 0 = [] \<and>
   fst (overwrite_factory recording_core 0 ''Service'' ''fake''
          \<lparr>enter = None, ping = None, on_registry_close = None\<rparr> world2) = Inr () \<and>
   registries (snd (overwrite_factory recording_core 0 ''Service'' ''fake''
          \<lparr>enter = None, ping = None, on_registry_close = None\<rparr> world2)) ! 0 =
     [RegisterFactory ''Service'' ''fake'' True None None]"
proof -
  have "SvcsMiddleware_call recording_core (SvcsMiddleware_init (svcs_from recording_core)) 0 world1 =
     (Inr 0, world2)"
    by (simp add: SvcsMiddleware_call_def SvcsMiddleware_init_def SvcsMiddleware_get_registry_def
        get_app_config_def isinstance_mixin_def get_registry_def getattr_registry_def py_bool_def
        Container_init_def setattr_request_def svcs_from_def getattr_request_def
        then_do_def ret_def deref_def world1_def world2_def recording_core_def)
  moreover have "overwrite_factory recording_core 0 ''Service'' ''fake''
      \<lparr>enter = None, ping = None, on_registry_close = None\<rparr> world2 =
      (Inr (), world2\<lparr>registries := [[RegisterFactory ''Service'' ''fake'' True None None]],
                      containers := [\<lparr>con_registry = 0, con_state = [Close]\<rparr>]\<rparr>)"
    by (simp add: overwrite_factory_def svcs_from_def getattr_request_def getattr_con_registry_def
        on_registry_def Container_close_call_def on_container_def then_do_def deref_def default_def world2_def
        recording_core_def)
  ultimately show ?thesis
    by (simp add: world2_def)
qed

text \<open>
  C9, amended. After \<^verbatim>\<open>overwrite_factory\<close> returns, the container stashed on the request
  has been closed (its state is the one \<^verbatim>\<open>close\<close> leaves, its registry is the same), and
  the factory was registered on that container's registry and on no other: every other
  registry is as it was, and no app config is changed. The app config's registry is left
  alone exactly when it is another object than the container's registry; for a container
  built by the middleware it is the same object and receives the registration.
\<close>

theorem overwrite_factory_closes_and_registers:
  assumes "deref (requests w) request = Some attrs" and "attrs (KEY_CONTAINER core) = Some c"
    and "deref (containers w) c = Some con"
    and "deref (registries w) (con_registry con) = Some s"
    and "fst (overwrite_factory core request t f
                \<lparr>enter = e, ping = p, on_registry_close = oc\<rparr> w) = Inr ()"
  shows "deref (containers (snd (overwrite_factory core request t f
                                   \<lparr>enter = e, ping = p, on_registry_close = oc\<rparr> w))) c =
           Some (con\<lparr>con_state := snd (Container_close core (con_state con))\<rparr>) \<and>
         fst (Container_close core (con_state con)) = Inr () \<and>
         deref (registries (snd (overwrite_factory core request t f
                                   \<lparr>enter = e, ping = p, on_registry_close = oc\<rparr> w)))
               (con_registry con) =
           Some (snd (Registry_register_factory core t f
                        (case e of None \<Rightarrow> True | Some b \<Rightarrow> b) p oc s)) \<and>
         fst (Registry_register_factory core t f
                (case e of None \<Rightarrow> True | Some b \<Rightarrow> b) p oc s) = Inr () \<and>
         (\<forall>a. a \<noteq> con_registry con \<longrightarrow>
            deref (registries (snd (overwrite_factory core request t f
                                      \<lparr>enter = e, ping = p, on_registry_close = oc\<rparr> w))) a =
              deref (registries w) a) \<and>
         configs (snd (overwrite_factory core request t f
                         \<lparr>enter = e, ping = p, on_registry_close = oc\<rparr> w)) = configs w"
proof -
  let ?kw = "\<lparr>enter = e, ping = p, on_registry_close = oc\<rparr>"
  obtain res s' where call:
    "Registry_register_factory core t f (default True (enter ?kw)) (ping ?kw)
       (on_registry_close ?kw) s = (res, s')"
    by (cases "Registry_register_factory core t f (default True (enter ?kw)) (ping ?kw)
       (on_registry_close ?kw) s") blast
  then have call': "Registry_register_factory core t f (case e of None \<Rightarrow> True | Some b \<Rightarrow> b) p oc s =
      (res, s')"
    by (simp add: default_def)
  note steps = overwrite_factory_steps [OF assms(1-4) call]
  have c: "c < length (containers w)" and r: "con_registry con < length (registries w)"
    using assms(3,4) by (simp_all add: deref_def split: if_splits)
  show ?thesis
  proof (cases res)
    case (Inl x)
    with assms(5) steps show ?thesis by simp
  next
    case (Inr u)
    with assms(5) steps c r show ?thesis
      by (simp add: call' deref_def)
  qed
qed

theorem overwrite_factory_closes_and_registers_witness:
  "overwrite_factory recording_core 0 ''Service'' ''fake''
     \<lparr>enter = None, ping = None, on_registry_close = None\<rparr> world3 =
     (Inr (), world3\<lparr>registries := [[], [RegisterFactory ''Service'' ''fake'' True None None]],
                     containers := [\<lparr>con_registry = 1, con_state = [Close]\<rparr>]\<rparr>) \<and>
   deref (containers (snd (overwrite_factory recording_core 0 ''Service'' ''fake''
     \<lparr>enter = None, ping = None, on_registry_close = None\<rparr> world3))) 0 =
     Some \<lparr>con_registry = 1, con_state = [Close]\<rparr> \<and>
   deref (registries (snd (overwrite_factory recording_core 0 ''Service'' ''fake''
     \<lparr>enter = None, ping = None, on_registry_close = None\<rparr> world3))) 1 =
     Some [RegisterFactory ''Service'' ''fake'' True None None] \<and>
   deref (registries (snd (overwrite_factory recording_core 0 ''Service'' ''fake''
     \<lparr>enter = None, ping = None, on_registry_close = None\<rparr> world3))) 0 = Some []"
proof -
  let ?kw = "\<lparr>enter = None, ping = None, on_registry_close = None\<rparr>"
  have q: "deref (requests world3) 0 = Some [''svcs_container'' \<mapsto> 0]"
    and k: "[''svcs_container'' \<mapsto> (0::nat)] (KEY_CONTAINER recording_core) = Some 0"
    and c: "deref (containers world3) 0 = Some \<lparr>con_registry = 1, con_state = []\<rparr>"
    by (simp_all add: deref_def world3_def recording_core_def)
  have r: "deref (registries world3) (con_registry \<lparr>con_registry = 1, con_state = ([]::con_call list)\<rparr>) =
      Some []"
    by (simp add: deref_def world3_def)
  have run: "overwrite_factory recording_core 0 ''Service'' ''fake'' ?kw world3 =
     (Inr (), world3\<lparr>registries := [[], [RegisterFactory ''Service'' ''fake'' True None None]],
                     containers := [\<lparr>con_registry = 1, con_state = [Close]\<rparr>]\<rparr>)"
    by (simp add: overwrite_factory_def svcs_from_def getattr_request_def getattr_con_registry_def
        on_registry_def Container_close_call_def on_container_def then_do_def deref_def default_def world3_def
        recording_core_def)
  then have ok: "fst (overwrite_factory recording_core 0 ''Service'' ''fake'' ?kw world3) = Inr ()"
    by simp
  have r0: "deref (registries world3) 0 = Some []"
    by (simp add: deref_def world3_def)
  from overwrite_factory_closes_and_registers [OF q k c r ok] r0
  have "deref (containers (snd (overwrite_factory recording_core 0 ''Service'' ''fake'' ?kw world3))) 0 =
      Some \<lparr>con_registry = 1, con_state = [Close]\<rparr> \<and>
    deref (registries (snd (overwrite_factory recording_core 0 ''Service'' ''fake'' ?kw world3))) 1 =
      Some [RegisterFactory ''Service'' ''fake'' True None None] \<and>
    deref (registries (snd (overwrite_factory recording_core 0 ''Service'' ''fake'' ?kw world3))) 0 =
      Some []"
    by (simp add: recording_core_def)
  with run show ?thesis
    by (simp only: simp_thms)
qed

end
